theory Spec2Isabelle
  imports Main
begin

section \<open>The HTTP greeter service of \<^verbatim>\<open>src/index.js\<close>\<close>

text \<open>
  The program is one Node.js module: it computes two constants (\<^verbatim>\<open>PORT\<close>, \<^verbatim>\<open>HOST\<close>),
  creates an Express application, registers one route with \<^verbatim>\<open>app.get('/', ...)\<close> whose
  handler calls \<^verbatim>\<open>res.send\<close> on a string literal, and calls \<^verbatim>\<open>app.listen\<close> with a callback
  that prints one line.

  The module itself is embedded line by line. What it calls in Express 4 (the router, the
  final handler and \<^verbatim>\<open>res.send\<close>) is embedded as far as this program exercises it, following
  \<^verbatim>\<open>express/lib/router\<close>, \<^verbatim>\<open>express/lib/response.js\<close>, \<^verbatim>\<open>express/lib/request.js\<close> and the
  packages \<^verbatim>\<open>fresh\<close> and \<^verbatim>\<open>finalhandler\<close>. A string is a list of bytes.
\<close>

subsection \<open>JavaScript values\<close>

text \<open>
  The values that reach \<^verbatim>\<open>PORT\<close>: a property of \<^verbatim>\<open>process.env\<close> is a string or is
  \<^verbatim>\<open>undefined\<close>, and the default is the number 80.
\<close>

datatype jsval = Undefined | Str string | Num int

text \<open>Truthiness: \<^verbatim>\<open>undefined\<close>, the empty string and 0 are falsy.\<close>

fun truthy :: "jsval \<Rightarrow> bool" where
  "truthy Undefined = False"
| "truthy (Str s) = (s \<noteq> [])"
| "truthy (Num n) = (n \<noteq> 0)"

text \<open>The operator \<^verbatim>\<open>a || b\<close>: the left operand when it is truthy, else the right one.\<close>

definition js_or :: "jsval \<Rightarrow> jsval \<Rightarrow> jsval" where
  "js_or a b = (if truthy a then a else b)"

text \<open>Decimal digits of a natural number, for the string conversion of a number.\<close>

fun dec :: "nat \<Rightarrow> string" where
  "dec n = (if n < 10 then [''0123456789'' ! n] else dec (n div 10) @ [''0123456789'' ! (n mod 10)])"

declare dec.simps [simp del]

text \<open>The string conversion that a template literal applies to \<^verbatim>\<open>${...}\<close>.\<close>

fun to_string :: "jsval \<Rightarrow> string" where
  "to_string Undefined = ''undefined''"
| "to_string (Str s) = s"
| "to_string (Num n) = (if n < 0 then CHR ''-'' # dec (nat (- n)) else dec (nat n))"

subsection \<open>The constants of the module\<close>

text \<open>\<^verbatim>\<open>process.env\<close>: a dictionary from names to strings; a missing name reads as \<^verbatim>\<open>undefined\<close>.\<close>

type_synonym environment = "string \<rightharpoonup> string"

definition env_get :: "environment \<Rightarrow> string \<Rightarrow> jsval" where
  "env_get e k = (case e k of None \<Rightarrow> Undefined | Some v \<Rightarrow> Str v)"

text \<open>\<^verbatim>\<open>const PORT = process.env.APP_PORT_NUMBER || 80;\<close>\<close>

definition PORT :: "environment \<Rightarrow> jsval" where
  "PORT e = js_or (env_get e ''APP_PORT_NUMBER'') (Num 80)"

text \<open>\<^verbatim>\<open>const HOST = '0.0.0.0';\<close>\<close>

definition HOST :: string where
  "HOST = ''0.0.0.0''"

text \<open>The string literal that the handler sends.\<close>

definition greeting :: string where
  "greeting = ''Jay Shree Krishna! Welcome to the world of DevOps!...''"

subsection \<open>Requests, responses and the process\<close>

text \<open>
  The request methods. \<open>Extension\<close> stands for every other method token that the HTTP parser
  of Node accepts (\<^verbatim>\<open>PROPFIND\<close>, \<^verbatim>\<open>TRACE\<close>, ...), by its name.
\<close>

datatype http_method = GET | HEAD | OPTIONS | POST | PUT | DELETE | PATCH | Extension string

fun method_name :: "http_method \<Rightarrow> string" where
  "method_name GET = ''GET''"
| "method_name HEAD = ''HEAD''"
| "method_name OPTIONS = ''OPTIONS''"
| "method_name POST = ''POST''"
| "method_name PUT = ''PUT''"
| "method_name DELETE = ''DELETE''"
| "method_name PATCH = ''PATCH''"
| "method_name (Extension s) = s"

text \<open>
  A request as the router sees it: \<^verbatim>\<open>req.method\<close>, the path name of \<^verbatim>\<open>req.url\<close> (the part
  before the query string; it is never empty) and \<^verbatim>\<open>req.headers\<close>, whose names Node gives in
  lower case.
\<close>

record request =
  "method" :: http_method
  path :: string
  headers :: "string \<rightharpoonup> string"

text \<open>A response: \<^verbatim>\<open>res.statusCode\<close>, the header fields set on it and the body written.\<close>

record response =
  statusCode :: nat
  resHeaders :: "string \<rightharpoonup> string"
  body :: string

text \<open>
  The state of the process that the module can reach: \<^verbatim>\<open>process.env\<close>, the port and host
  arguments that \<^verbatim>\<open>app.listen\<close> was called with (what Node listens on for them is
  \<open>net_listen\<close> below), and the lines written by \<^verbatim>\<open>console.log\<close>.
\<close>

record process =
  env :: environment
  listen_args :: "jsval \<times> string"
  stdout :: "string list"

text \<open>
  What the model takes from Express as parameters: the application's \<^verbatim>\<open>etag fn\<close> setting
  (by default the weak entity tag built from a SHA-1 digest of the body) and the function
  of the package \<^verbatim>\<open>encodeurl\<close>.
\<close>

record deps =
  etagFn :: "string \<Rightarrow> string"
  encodeUrl :: "string \<Rightarrow> string"

subsection \<open>Freshness of a conditional request (package \<^verbatim>\<open>fresh\<close>, \<^verbatim>\<open>req.fresh\<close>)\<close>

text \<open>
  Reading a header field: a missing field is \<^verbatim>\<open>undefined\<close>, and \<^verbatim>\<open>fresh\<close> only tests the
  value for truthiness before it uses it, so a missing field reads as the empty string.
\<close>

definition field :: "(string \<rightharpoonup> string) \<Rightarrow> string \<Rightarrow> string" where
  "field h k = (case h k of None \<Rightarrow> [] | Some v \<Rightarrow> v)"

text \<open>
  The items of a string between its commas, in their order (there is always at least one
  item, so the first case of the inner distinction never arises).
\<close>

fun split_commas :: "string \<Rightarrow> string list" where
  "split_commas [] = [[]]"
| "split_commas (c # cs) =
     (if c = CHR '','' then [] # split_commas cs
      else (case split_commas cs of [] \<Rightarrow> [[c]] | t # ts \<Rightarrow> (c # t) # ts))"

text \<open>A string without the characters of a class at its two ends.\<close>

definition trim :: "(char \<Rightarrow> bool) \<Rightarrow> string \<Rightarrow> string" where
  "trim sp s = rev (dropWhile sp (rev (dropWhile sp s)))"

text \<open>\<^verbatim>\<open>parseTokenList\<close>: the items between commas, without the spaces around them.\<close>

definition parseTokenList :: "string \<Rightarrow> string list" where
  "parseTokenList s = map (trim (\<lambda>c. c = CHR '' '')) (split_commas s)"

text \<open>The characters that \<^verbatim>\<open>\s\<close> matches among the bytes of a header value.\<close>

definition whitespace :: "char \<Rightarrow> bool" where
  "whitespace c = (of_char c \<in> {9, 10, 11, 12, 13, 32, 160 :: nat})"

text \<open>
  \<^verbatim>\<open>CACHE_CONTROL_NO_CACHE_REGEXP.test\<close>, for the pattern
  \<^verbatim>\<open>/(?:^|,)\s*?no-cache\s*?(?:,|$)/\<close>: some item between commas is \<^verbatim>\<open>no-cache\<close> with
  white space around it.
\<close>

definition no_cache :: "string \<Rightarrow> bool" where
  "no_cache cc = (''no-cache'' \<in> set (map (trim whitespace) (split_commas cc)))"

text \<open>
  \<^verbatim>\<open>fresh(reqHeaders, resHeaders)\<close> of \<^verbatim>\<open>fresh\<close> 0.5, for a response without a
  \<^verbatim>\<open>Last-Modified\<close> field (this program never sets one, so \<^verbatim>\<open>!lastModified\<close> holds and a
  request with \<^verbatim>\<open>If-Modified-Since\<close> is stale).
\<close>

definition fresh :: "(string \<rightharpoonup> string) \<Rightarrow> (string \<rightharpoonup> string) \<Rightarrow> bool" where
  "fresh reqHeaders resHeaders' =
     (let modifiedSince = field reqHeaders ''if-modified-since'';
          noneMatch = field reqHeaders ''if-none-match'';
          cacheControl = field reqHeaders ''cache-control'';
          etag = field resHeaders' ''ETag''
      in if modifiedSince = [] \<and> noneMatch = [] then False
         else if cacheControl \<noteq> [] \<and> no_cache cacheControl then False
         else if noneMatch \<noteq> [] \<and> noneMatch \<noteq> ''*'' \<and>
                 (etag = [] \<or>
                  list_all (\<lambda>m. \<not> (m = etag \<or> m = ''W/'' @ etag \<or> ''W/'' @ m = etag))
                    (parseTokenList noneMatch))
              then False
         else if modifiedSince \<noteq> [] then False
         else True)"

text \<open>\<^verbatim>\<open>req.fresh\<close>: only for GET and HEAD, and for a status 2xx or 304.\<close>

definition req_fresh :: "request \<Rightarrow> response \<Rightarrow> bool" where
  "req_fresh req res =
     (if method req \<noteq> GET \<and> method req \<noteq> HEAD then False
      else if (200 \<le> statusCode res \<and> statusCode res < 300) \<or> statusCode res = 304
           then fresh (headers req) (resHeaders res)
      else False)"

subsection \<open>\<^verbatim>\<open>res.send\<close> with a string (\<^verbatim>\<open>express/lib/response.js\<close>)\<close>

definition set_header :: "string \<Rightarrow> string \<Rightarrow> response \<Rightarrow> response" where
  "set_header k v res = res\<lparr>resHeaders := (resHeaders res)(k \<mapsto> v)\<rparr>"

definition remove_header :: "string \<Rightarrow> response \<Rightarrow> response" where
  "remove_header k res = res\<lparr>resHeaders := (resHeaders res)(k := None)\<rparr>"

text \<open>
  \<^verbatim>\<open>res.send(chunk)\<close> for a string \<^verbatim>\<open>chunk\<close> changes the response in steps, here in the order
  of the source. First the content type: without a \<^verbatim>\<open>Content-Type\<close> the type is \<^verbatim>\<open>html\<close>, and
  a string is written in UTF-8, which the field states (a \<^verbatim>\<open>Content-Type\<close> set before is kept:
  no caller here sets one).
\<close>

definition send_type :: "response \<Rightarrow> response" where
  "send_type res =
     (if resHeaders res ''Content-Type'' = None
      then set_header ''Content-Type'' ''text/html; charset=utf-8'' res else res)"

text \<open>
  \<^verbatim>\<open>Content-Length\<close> is the number of bytes, and a response without an \<^verbatim>\<open>ETag\<close> field gets
  the entity tag of the body, when the function gives one.
\<close>

definition send_length_etag :: "deps \<Rightarrow> string \<Rightarrow> response \<Rightarrow> response" where
  "send_length_etag d chunk res =
     (let generateETag = (resHeaders res ''ETag'' = None);
          res' = set_header ''Content-Length'' (dec (length chunk)) res
      in if generateETag \<and> etagFn d chunk \<noteq> [] then set_header ''ETag'' (etagFn d chunk) res'
         else res')"

text \<open>\<^verbatim>\<open>if (req.fresh) this.statusCode = 304;\<close>\<close>

definition send_freshness :: "request \<Rightarrow> response \<Rightarrow> response" where
  "send_freshness req res = (if req_fresh req res then res\<lparr>statusCode := 304\<rparr> else res)"

text \<open>For the status 204 or 304 the content fields are removed and the body is empty.\<close>

definition no_content :: "response \<Rightarrow> bool" where
  "no_content res = (statusCode res = 204 \<or> statusCode res = 304)"

definition send_strip :: "response \<Rightarrow> response" where
  "send_strip res =
     (if no_content res
      then remove_header ''Transfer-Encoding''
             (remove_header ''Content-Length'' (remove_header ''Content-Type'' res))
      else res)"

text \<open>The end: for HEAD no body is written, else the chunk, which is empty without content.\<close>

definition send_end :: "request \<Rightarrow> string \<Rightarrow> response \<Rightarrow> response" where
  "send_end req chunk res =
     (if method req = HEAD then res\<lparr>body := []\<rparr>
      else res\<lparr>body := (if no_content res then [] else chunk)\<rparr>)"

definition res_send :: "deps \<Rightarrow> request \<Rightarrow> response \<Rightarrow> string \<Rightarrow> response" where
  "res_send d req res chunk =
     send_end req chunk
       (send_strip (send_freshness req (send_length_etag d chunk (send_type res))))"

subsection \<open>The final handler (package \<^verbatim>\<open>finalhandler\<close>)\<close>

text \<open>\<^verbatim>\<open>escapeHtml\<close>: the five characters that HTML reserves become entities.\<close>

fun escapeHtml :: "string \<Rightarrow> string" where
  "escapeHtml [] = []"
| "escapeHtml (c # cs) =
     (if c = CHR 0x22 then ''&quot;''
      else if c = CHR ''&'' then ''&amp;''
      else if c = CHR 0x27 then ''&#39;''
      else if c = CHR ''<'' then ''&lt;''
      else if c = CHR ''>'' then ''&gt;''
      else [c]) @ escapeHtml cs"

text \<open>\<^verbatim>\<open>.replace(/\n/g, '<br>')\<close>\<close>

fun replace_newline :: "string \<Rightarrow> string" where
  "replace_newline [] = []"
| "replace_newline (c # cs) = (if c = CHR 0x0A then ''<br>'' else [c]) @ replace_newline cs"

text \<open>\<^verbatim>\<open>.replace(/\x20{2}/g, ' &nbsp;')\<close>: pairs of spaces, from the left.\<close>

fun replace_double_space :: "string \<Rightarrow> string" where
  "replace_double_space (a # b # cs) =
     (if a = CHR '' '' \<and> b = CHR '' '' then '' &nbsp;'' @ replace_double_space cs
      else a # replace_double_space (b # cs))"
| "replace_double_space cs = cs"

definition createHtmlDocument :: "string \<Rightarrow> string" where
  "createHtmlDocument message =
     ''<!DOCTYPE html>'' @ [CHR 0x0A] @
     ''<html lang='' @ [CHR 0x22] @ ''en'' @ [CHR 0x22] @ ''>'' @ [CHR 0x0A] @
     ''<head>'' @ [CHR 0x0A] @
     ''<meta charset='' @ [CHR 0x22] @ ''utf-8'' @ [CHR 0x22] @ ''>'' @ [CHR 0x0A] @
     ''<title>Error</title>'' @ [CHR 0x0A] @
     ''</head>'' @ [CHR 0x0A] @
     ''<body>'' @ [CHR 0x0A] @
     ''<pre>'' @ replace_double_space (replace_newline (escapeHtml message)) @ ''</pre>'' @ [CHR 0x0A] @
     ''</body>'' @ [CHR 0x0A] @
     ''</html>'' @ [CHR 0x0A]"

text \<open>
  No route answered and there is no error: the status is 404, the message is
  \<^verbatim>\<open>'Cannot ' + req.method + ' ' + encodeUrl(pathname)\<close>, the security and content fields are
  set, and for HEAD no body is written.
\<close>

definition finalhandler :: "deps \<Rightarrow> request \<Rightarrow> response \<Rightarrow> response" where
  "finalhandler d req res =
     (let msg = ''Cannot '' @ method_name (method req) @ '' '' @ encodeUrl d (path req);
          doc = createHtmlDocument msg;
          res1 = res\<lparr>statusCode := 404\<rparr>;
          res2 = remove_header ''Content-Range''
                   (remove_header ''Content-Language'' (remove_header ''Content-Encoding'' res1));
          res3 = set_header ''X-Content-Type-Options'' ''nosniff''
                   (set_header ''Content-Security-Policy'' (''default-src '' @ [CHR 0x27] @ ''none'' @ [CHR 0x27]) res2);
          res4 = set_header ''Content-Length'' (dec (length doc))
                   (set_header ''Content-Type'' ''text/html; charset=utf-8'' res3)
      in if method req = HEAD then res4\<lparr>body := []\<rparr> else res4\<lparr>body := doc\<rparr>)"

subsection \<open>The router (\<^verbatim>\<open>express/lib/router\<close>)\<close>

text \<open>
  A handler gets the request and the response under construction; as any JavaScript
  function it can also reach the state of the process, which is passed through it.
\<close>

type_synonym handler = "request \<Rightarrow> response \<Rightarrow> process \<Rightarrow> process \<times> response"

text \<open>
  A route: the test of the path that its layer compiled from the route's path, the methods
  it was registered for, and its handler.
\<close>

record route =
  regexp :: "string \<Rightarrow> bool"
  methods :: "http_method list"
  handle :: handler

text \<open>
  The layer of the path \<^verbatim>\<open>'/'\<close> under the default routing (not strict, ending the path): the
  pattern \<^verbatim>\<open>/^\/?$/i\<close>, which among the path names of requests matches \<^verbatim>\<open>/\<close> alone.
\<close>

definition root_regexp :: "string \<Rightarrow> bool" where
  "root_regexp p = (p = ''/'')"

text \<open>\<^verbatim>\<open>Route.prototype._handles_method\<close>: a route for GET without one for HEAD serves HEAD.\<close>

definition handles_method :: "route \<Rightarrow> http_method \<Rightarrow> bool" where
  "handles_method r m =
     (let name = (if m = HEAD \<and> HEAD \<notin> set (methods r) then GET else m)
      in name \<in> set (methods r))"

text \<open>\<^verbatim>\<open>Route.prototype._options\<close>: the methods of the route, with HEAD after them for a GET route.\<close>

definition route_options :: "route \<Rightarrow> http_method list" where
  "route_options r =
     (if GET \<in> set (methods r) \<and> HEAD \<notin> set (methods r) then methods r @ [HEAD] else methods r)"

text \<open>\<^verbatim>\<open>appendMethods\<close>: the methods not yet in the list are appended.\<close>

fun appendMethods :: "http_method list \<Rightarrow> http_method list \<Rightarrow> http_method list" where
  "appendMethods list [] = list"
| "appendMethods list (m # ms) =
     (if m \<in> set list then appendMethods list ms else appendMethods (list @ [m]) ms)"

text \<open>\<^verbatim>\<open>options.join(',')\<close>\<close>

fun join_methods :: "http_method list \<Rightarrow> string" where
  "join_methods [] = []"
| "join_methods [m] = method_name m"
| "join_methods (m # ms) = method_name m @ '','' @ join_methods ms"

text \<open>\<^verbatim>\<open>sendOptionsResponse\<close>: the field \<^verbatim>\<open>Allow\<close> and the body list the methods.\<close>

definition sendOptionsResponse :: "deps \<Rightarrow> request \<Rightarrow> response \<Rightarrow> http_method list \<Rightarrow> response" where
  "sendOptionsResponse d req res options =
     (let b = join_methods options in res_send d req (set_header ''Allow'' b res) b)"

text \<open>
  \<^verbatim>\<open>Router.handle\<close>: the routes are tried in the order of their registration. A route whose
  layer matches the path and which handles the method runs its handler (the handler of this
  program answers and never calls \<^verbatim>\<open>next\<close>). A matching route that does not handle the method
  is passed over; for an OPTIONS request its methods are collected. When no route is left,
  an OPTIONS request for which methods were collected gets the automatic answer, and any
  other request goes to the final handler.
\<close>

fun router_handle ::
  "deps \<Rightarrow> route list \<Rightarrow> http_method list \<Rightarrow> request \<Rightarrow> response \<Rightarrow> process \<Rightarrow> process \<times> response"
where
  "router_handle d [] options req res p =
     (if method req = OPTIONS \<and> options \<noteq> []
      then (p, sendOptionsResponse d req res options)
      else (p, finalhandler d req res))"
| "router_handle d (r # rs) options req res p =
     (if \<not> regexp r (path req) then router_handle d rs options req res p
      else if handles_method r (method req) then handle r req res p
      else router_handle d rs
             (if method req = OPTIONS then appendMethods options (route_options r) else options)
             req res p)"

subsection \<open>The application of \<^verbatim>\<open>index.js\<close>\<close>

text \<open>
  \<^verbatim>\<open>(req, res) => { res.send('Jay Shree Krishna! Welcome to the world of DevOps!...'); }\<close>
\<close>

definition root_handler :: "deps \<Rightarrow> handler" where
  "root_handler d req res p = (p, res_send d req res greeting)"

text \<open>\<^verbatim>\<open>app.get(path, handler)\<close>, for the path \<^verbatim>\<open>'/'\<close>: one more route, for GET.\<close>

definition app_get_root :: "handler \<Rightarrow> route list \<Rightarrow> route list" where
  "app_get_root h routes = routes @ [\<lparr>regexp = root_regexp, methods = [GET], handle = h\<rparr>]"

text \<open>\<^verbatim>\<open>const app = express(); app.get('/', ...);\<close>: a new application has no route.\<close>

definition app :: "deps \<Rightarrow> route list" where
  "app d = app_get_root (root_handler d) []"

text \<open>
  What a new response starts from: the status 200, and the field \<^verbatim>\<open>X-Powered-By\<close> that the
  application sets before it routes (the setting \<^verbatim>\<open>x-powered-by\<close> is on by default).
\<close>

definition new_response :: response where
  "new_response = \<lparr>statusCode = 200, resHeaders = [''X-Powered-By'' \<mapsto> ''Express''], body = []\<rparr>"

text \<open>The application answering one request.\<close>

definition app_handle :: "deps \<Rightarrow> request \<Rightarrow> process \<Rightarrow> process \<times> response" where
  "app_handle d req p = router_handle d (app d) [] req new_response p"

subsection \<open>Start of the process and service\<close>

text \<open>
  \<^verbatim>\<open>app.listen(PORT, HOST, () => { console.log(`Running on http://${HOST}:${PORT}`); });\<close>
  Whether listening succeeds for these two arguments is decided by Node and the operating
  system: \<open>can_bind\<close>. When it does not, the process ends with an error (\<open>None\<close>) and nothing
  is printed; when it does, the callback prints its line. The state records the arguments of
  the call.
\<close>

definition main :: "(jsval \<Rightarrow> string \<Rightarrow> bool) \<Rightarrow> environment \<Rightarrow> process option" where
  "main can_bind e =
     (if can_bind (PORT e) HOST
      then Some \<lparr>env = e, listen_args = (PORT e, HOST),
                 stdout = [''Running on http://'' @ HOST @ '':'' @ to_string (PORT e)]\<rparr>
      else None)"

text \<open>
  What can happen to a running process: a request arrives, or a variable of \<^verbatim>\<open>process.env\<close>
  is assigned (the module itself makes no such assignment; the event stands for any other
  code of the process that does).
\<close>

datatype event = Request request | SetEnv string string

fun step :: "deps \<Rightarrow> process \<Rightarrow> event \<Rightarrow> process \<times> response option" where
  "step d p (Request req) = (case app_handle d req p of (p', res) \<Rightarrow> (p', Some res))"
| "step d p (SetEnv k v) = (p\<lparr>env := (env p)(k \<mapsto> v)\<rparr>, None)"

text \<open>A run: the state after the events, and the responses in their order.\<close>

fun run :: "deps \<Rightarrow> process \<Rightarrow> event list \<Rightarrow> process \<times> response list" where
  "run d p [] = (p, [])"
| "run d p (ev # evs) =
     (case step d p ev of (p', out) \<Rightarrow>
        (case run d p' evs of (p'', rs) \<Rightarrow>
           (p'', (case out of None \<Rightarrow> rs | Some r \<Rightarrow> r # rs))))"

subsection \<open>What Node listens on (\<^verbatim>\<open>net.Server.prototype.listen\<close>, \<^verbatim>\<open>lib/net.js\<close>)\<close>

text \<open>
  \<^verbatim>\<open>app.listen\<close> hands its arguments to \<^verbatim>\<open>server.listen\<close>, which reads the first one in two
  ways: \<^verbatim>\<open>normalizeArgs\<close> takes a string \<^verbatim>\<open>s\<close> for which \<^verbatim>\<open>Number(s) >= 0\<close> is false as the name
  of a pipe (a Unix domain socket) and then ignores the host; any other value is a port, and
  the host is used. What follows decides \<^verbatim>\<open>Number(s) >= 0\<close> for a string, after the grammar
  \<^verbatim>\<open>StringNumericLiteral\<close> of ECMAScript.

  A string of the environment is held as the bytes of its UTF-8 encoding, so the white
  space characters of the grammar (\<^verbatim>\<open>StrWhiteSpaceChar\<close>: TAB, LF, VT, FF, CR, SP, U+00A0,
  U+1680, U+2000 to U+200A, U+2028, U+2029, U+202F, U+205F, U+3000, U+FEFF) are listed by
  their encodings.
\<close>

definition str_white_space :: "string list" where
  "str_white_space =
     [[CHR 0x09], [CHR 0x0A], [CHR 0x0B], [CHR 0x0C], [CHR 0x0D], [CHR 0x20],
      [CHR 0xC2, CHR 0xA0], [CHR 0xE1, CHR 0x9A, CHR 0x80],
      [CHR 0xE2, CHR 0x80, CHR 0x80], [CHR 0xE2, CHR 0x80, CHR 0x81],
      [CHR 0xE2, CHR 0x80, CHR 0x82], [CHR 0xE2, CHR 0x80, CHR 0x83],
      [CHR 0xE2, CHR 0x80, CHR 0x84], [CHR 0xE2, CHR 0x80, CHR 0x85],
      [CHR 0xE2, CHR 0x80, CHR 0x86], [CHR 0xE2, CHR 0x80, CHR 0x87],
      [CHR 0xE2, CHR 0x80, CHR 0x88], [CHR 0xE2, CHR 0x80, CHR 0x89],
      [CHR 0xE2, CHR 0x80, CHR 0x8A], [CHR 0xE2, CHR 0x80, CHR 0xA8],
      [CHR 0xE2, CHR 0x80, CHR 0xA9], [CHR 0xE2, CHR 0x80, CHR 0xAF],
      [CHR 0xE2, CHR 0x81, CHR 0x9F], [CHR 0xE3, CHR 0x80, CHR 0x80],
      [CHR 0xEF, CHR 0xBB, CHR 0xBF]]"

text \<open>
  The number of bytes of the white space character that a string starts with, 0 when it
  starts with none.
\<close>

fun white_space_at :: "string list \<Rightarrow> string \<Rightarrow> nat" where
  "white_space_at [] s = 0"
| "white_space_at (w # ws) s =
     (if w \<noteq> [] \<and> take (length w) s = w then length w else white_space_at ws s)"

text \<open>
  A string without the white space characters it starts with.
\<close>

function ltrim :: "string list \<Rightarrow> string \<Rightarrow> string" where
  "ltrim ws s = (if white_space_at ws s = 0 then s else ltrim ws (drop (white_space_at ws s) s))"
  by pat_completeness auto
termination
proof (relation "measure (\<lambda>(ws, s). length s)")
  show "wf (measure (\<lambda>(ws, s). length s))" by simp
next
  fix ws :: "string list" and s :: string
  assume a: "white_space_at ws s \<noteq> 0"
  have "white_space_at ws s \<noteq> 0 \<Longrightarrow> s \<noteq> []"
    by (induction ws) (auto split: if_splits)
  with a show "((ws, drop (white_space_at ws s) s), (ws, s)) \<in> measure (\<lambda>(ws, s). length s)"
    by simp
qed

declare ltrim.simps [simp del]

text \<open>
  The grammar allows white space before and after the literal.
\<close>

definition str_trim :: "string \<Rightarrow> string" where
  "str_trim s = rev (ltrim (map rev str_white_space) (rev (ltrim str_white_space s)))"

definition is_digit :: "char \<Rightarrow> bool" where
  "is_digit c = (c \<in> set ''0123456789'')"

definition digits_value :: "string \<Rightarrow> int" where
  "digits_value ds = foldl (\<lambda>n c. 10 * n + (of_char c - 48)) 0 ds"

text \<open>
  \<^verbatim>\<open>NonDecimalIntegerLiteral\<close>: \<^verbatim>\<open>0b\<close>, \<^verbatim>\<open>0o\<close> or \<^verbatim>\<open>0x\<close> (in either case) and at least one digit
  of the base. It has no sign, and its value is not negative.
\<close>

definition non_decimal_literal :: "string \<Rightarrow> bool" where
  "non_decimal_literal t =
     (case t of
        z # x # ds \<Rightarrow>
          z = CHR ''0'' \<and> ds \<noteq> [] \<and>
          (if x \<in> set ''bB'' then list_all (\<lambda>c. c \<in> set ''01'') ds
           else if x \<in> set ''oO'' then list_all (\<lambda>c. c \<in> set ''01234567'') ds
           else if x \<in> set ''xX'' then list_all (\<lambda>c. c \<in> set ''0123456789abcdefABCDEF'') ds
           else False)
      | _ \<Rightarrow> False)"

text \<open>
  \<^verbatim>\<open>ExponentPart\<close>, when there is one: \<^verbatim>\<open>e\<close> or \<^verbatim>\<open>E\<close>, an optional sign and at least one digit.
  The result is the exponent, 0 without the part, and \<open>None\<close> when what is left of the
  string is not an exponent part.
\<close>

definition exponent_part :: "string \<Rightarrow> int option" where
  "exponent_part r =
     (case r of
        [] \<Rightarrow> Some 0
      | x # r' \<Rightarrow>
          if x \<in> set ''eE'' then
            (let neg = (case r' of [] \<Rightarrow> False | sg # _ \<Rightarrow> sg = CHR ''-'');
                 ds = (case r' of [] \<Rightarrow> [] | sg # r'' \<Rightarrow> if sg \<in> set ''+-'' then r'' else r')
             in if ds \<noteq> [] \<and> list_all is_digit ds
                then Some (if neg then - digits_value ds else digits_value ds)
                else None)
          else None)"

text \<open>
  \<^verbatim>\<open>StrUnsignedDecimalLiteral\<close> other than \<^verbatim>\<open>Infinity\<close>: digits with an optional point and an
  optional exponent part, with at least one digit before or after the point. The result
  \<open>(m, k)\<close> gives the mathematical value \<open>m * 10 ^ k\<close>.
\<close>

definition unsigned_decimal :: "string \<Rightarrow> (int \<times> int) option" where
  "unsigned_decimal t =
     (let ip = takeWhile is_digit t;
          r1 = dropWhile is_digit t;
          dot = (case r1 of [] \<Rightarrow> False | x # _ \<Rightarrow> x = CHR ''.'');
          fp = (if dot then takeWhile is_digit (tl r1) else []);
          r2 = (if dot then dropWhile is_digit (tl r1) else r1)
      in if ip = [] \<and> fp = [] then None
         else (case exponent_part r2 of
                 None \<Rightarrow> None
               | Some ex \<Rightarrow> Some (digits_value (ip @ fp), ex - int (length fp))))"

text \<open>
  The number value of a literal is its mathematical value rounded to the nearest double,
  ties to even: it is zero when the mathematical value is zero or at most \<open>2 ^ - 1075\<close>, half
  of the least positive double.
\<close>

definition rounds_to_zero :: "int \<times> int \<Rightarrow> bool" where
  "rounds_to_zero mk =
     (case mk of (m, k) \<Rightarrow> m = 0 \<or> (k < 0 \<and> m * 2 ^ 1075 \<le> 10 ^ nat (- k)))"

text \<open>
  \<^verbatim>\<open>Number(s) >= 0\<close>: the empty literal is 0; a literal without a minus sign is not negative
  (\<^verbatim>\<open>Infinity\<close> included); a literal with a minus sign is \<^verbatim>\<open>-0\<close>, for which the comparison
  holds, exactly when its digits round to zero; every other string is \<^verbatim>\<open>NaN\<close>, for which it
  fails.
\<close>

definition number_nonneg :: "string \<Rightarrow> bool" where
  "number_nonneg s =
     (let t = str_trim s
      in if t = [] then True
         else if non_decimal_literal t then True
         else (case t of
                 [] \<Rightarrow> True
               | c # u \<Rightarrow>
                   if c = CHR ''-''
                   then u \<noteq> ''Infinity'' \<and>
                        (case unsigned_decimal u of None \<Rightarrow> False | Some mk \<Rightarrow> rounds_to_zero mk)
                   else if c = CHR ''+'' then u = ''Infinity'' \<or> unsigned_decimal u \<noteq> None
                   else t = ''Infinity'' \<or> unsigned_decimal t \<noteq> None))"

text \<open>
  \<^verbatim>\<open>isPipeName(s)\<close>: \<^verbatim>\<open>typeof s === 'string' && toNumber(s) === false\<close>, where \<^verbatim>\<open>toNumber(x)\<close>
  is \<^verbatim>\<open>(x = Number(x)) >= 0 ? x : false\<close>.
\<close>

fun isPipeName :: "jsval \<Rightarrow> bool" where
  "isPipeName (Str s) = (\<not> number_nonneg s)"
| "isPipeName v = False"

text \<open>
  What the server is asked to listen on: a TCP port with a host, or a pipe, which has a
  name and no host.
\<close>

datatype endpoint = Tcp jsval string | Pipe string

fun endpoint_host :: "endpoint \<Rightarrow> string option" where
  "endpoint_host (Tcp port host) = Some host"
| "endpoint_host (Pipe name) = None"

text \<open>
  \<^verbatim>\<open>server.listen(port, host, callback)\<close> with a string \<^verbatim>\<open>host\<close> that is not empty: a pipe name
  as the first argument gives a pipe of that name; otherwise the first argument is the port
  (an undefined one stands for port 0) and the host is the second argument. Whether
  listening there succeeds (the check of the port's range included) is \<open>can_bind\<close> of
  \<open>main\<close>.
\<close>

definition net_listen :: "jsval \<Rightarrow> string \<Rightarrow> endpoint" where
  "net_listen port host =
     (if isPipeName port then Pipe (to_string port)
      else Tcp (if port = Undefined then Num 0 else port) host)"

subsection \<open>Notions used by the properties\<close>

text \<open>
  A request is validated when it is a conditional request that \<^verbatim>\<open>fresh\<close> accepts against the
  entity tag of the greeting: this is what \<^verbatim>\<open>req.fresh\<close> computes inside \<^verbatim>\<open>res.send\<close> when the
  root handler runs (lemma \<open>greeting_fresh\<close>).
\<close>

definition validated :: "deps \<Rightarrow> request \<Rightarrow> bool" where
  "validated d req = fresh (headers req) [''ETag'' \<mapsto> etagFn d greeting]"

text \<open>
  An instance of the parameters and a running process, for evaluating examples: the entity
  tag is made from the length of the body alone, and the encoding leaves a path as it is
  (the paths of the examples need no encoding).
\<close>

definition sample_deps :: deps where
  "sample_deps = \<lparr>etagFn = (\<lambda>b. ''W/'' @ [CHR 0x22] @ dec (length b) @ [CHR 0x22]),
                   encodeUrl = (\<lambda>u. u)\<rparr>"

definition sample_process :: process where
  "sample_process = \<lparr>env = Map.empty, listen_args = (Num 80, ''0.0.0.0''),
                      stdout = [''Running on http://0.0.0.0:80'']\<rparr>"

section \<open>Properties\<close>

subsection \<open>Auxiliary facts: \<^verbatim>\<open>res.send\<close>\<close>

lemma fresh_etag_only:
  "field rh ''ETag'' = field rh' ''ETag'' \<Longrightarrow> fresh h rh = fresh h rh'"
  by (simp add: fresh_def)

lemma req_fresh_validated:
  assumes "method req = GET \<or> method req = HEAD" and "statusCode res = 200"
    and "field (resHeaders res) ''ETag'' = etagFn d greeting"
  shows "req_fresh req res = validated d req"
proof -
  have "field (resHeaders res) ''ETag'' = field [''ETag'' \<mapsto> etagFn d greeting] ''ETag''"
    using assms(3) by (simp add: field_def)
  then have "fresh (headers req) (resHeaders res) = validated d req"
    unfolding validated_def by (rule fresh_etag_only)
  then show ?thesis
    using assms(1,2) by (auto simp add: req_fresh_def)
qed

lemma send_type_new:
  "statusCode (send_type new_response) = 200"
  "resHeaders (send_type new_response) ''Content-Type'' = Some ''text/html; charset=utf-8''"
  "resHeaders (send_type new_response) ''ETag'' = None"
  by (simp_all add: send_type_def new_response_def set_header_def)

lemma status_send_length_etag [simp]:
  "statusCode (send_length_etag d chunk res) = statusCode res"
  by (simp add: send_length_etag_def Let_def set_header_def)

lemma etag_send_length_etag:
  "resHeaders res ''ETag'' = None \<Longrightarrow>
   field (resHeaders (send_length_etag d chunk res)) ''ETag'' = etagFn d chunk"
  by (simp add: send_length_etag_def Let_def set_header_def field_def)

lemma type_send_length_etag [simp]:
  "resHeaders (send_length_etag d chunk res) ''Content-Type'' = resHeaders res ''Content-Type''"
  by (simp add: send_length_etag_def Let_def set_header_def)

lemma status_send_freshness:
  "statusCode (send_freshness req res) = (if req_fresh req res then 304 else statusCode res)"
  by (simp add: send_freshness_def)

lemma headers_send_freshness [simp]:
  "resHeaders (send_freshness req res) = resHeaders res"
  by (simp add: send_freshness_def)

lemma status_send_strip [simp]: "statusCode (send_strip res) = statusCode res"
  by (simp add: send_strip_def remove_header_def)

lemma type_send_strip:
  "resHeaders (send_strip res) ''Content-Type'' =
     (if no_content res then None else resHeaders res ''Content-Type'')"
  by (simp add: send_strip_def remove_header_def)

lemma no_content_send_strip [simp]: "no_content (send_strip res) = no_content res"
  by (simp add: no_content_def)

lemma status_send_end [simp]: "statusCode (send_end req chunk res) = statusCode res"
  by (simp add: send_end_def)

lemma headers_send_end [simp]: "resHeaders (send_end req chunk res) = resHeaders res"
  by (simp add: send_end_def)

lemma body_send_end:
  "body (send_end req chunk res) = (if method req = HEAD \<or> no_content res then [] else chunk)"
  by (simp add: send_end_def)

lemma greeting_fresh:
  assumes "method req = GET \<or> method req = HEAD"
  shows "req_fresh req (send_length_etag d greeting (send_type new_response)) = validated d req"
proof (rule req_fresh_validated [OF assms])
  show "statusCode (send_length_etag d greeting (send_type new_response)) = 200"
    by (simp add: send_type_new)
  show "field (resHeaders (send_length_etag d greeting (send_type new_response))) ''ETag'' =
      etagFn d greeting"
    by (rule etag_send_length_etag) (simp add: send_type_new)
qed

lemma send_greeting_status:
  assumes "method req = GET \<or> method req = HEAD"
  shows "statusCode (res_send d req new_response greeting) = (if validated d req then 304 else 200)"
  by (simp add: res_send_def status_send_freshness greeting_fresh [OF assms] send_type_new)

lemma send_greeting_body:
  assumes "method req = GET \<or> method req = HEAD"
  shows "body (res_send d req new_response greeting) =
     (if method req = HEAD \<or> validated d req then [] else greeting)"
  by (simp add: res_send_def body_send_end no_content_def status_send_freshness
      greeting_fresh [OF assms] send_type_new)

lemma send_greeting_type:
  assumes "method req = GET \<or> method req = HEAD"
  shows "resHeaders (res_send d req new_response greeting) ''Content-Type'' =
     (if validated d req then None else Some ''text/html; charset=utf-8'')"
  by (simp add: res_send_def type_send_strip no_content_def status_send_freshness
      greeting_fresh [OF assms] send_type_new)

lemma app_root:
  "path req = ''/'' \<Longrightarrow> method req = GET \<or> method req = HEAD \<Longrightarrow>
   app_handle d req p = (p, res_send d req new_response greeting)"
  by (auto simp add: app_handle_def app_def app_get_root_def root_regexp_def handles_method_def
      root_handler_def)

lemma app_options:
  "path req = ''/'' \<Longrightarrow> method req = OPTIONS \<Longrightarrow>
   app_handle d req p = (p, sendOptionsResponse d req new_response [GET, HEAD])"
  by (simp add: app_handle_def app_def app_get_root_def root_regexp_def handles_method_def
      route_options_def)

lemma app_not_found:
  "path req \<noteq> ''/'' \<or> method req \<notin> {GET, HEAD, OPTIONS} \<Longrightarrow>
   app_handle d req p = (p, finalhandler d req new_response)"
  by (auto simp add: app_handle_def app_def app_get_root_def root_regexp_def handles_method_def
      route_options_def)

lemma app_state: "fst (app_handle d req p) = p"
  by (simp add: app_handle_def app_def app_get_root_def root_regexp_def handles_method_def
      route_options_def root_handler_def)

lemma options_status:
  "method req = OPTIONS \<Longrightarrow> statusCode (sendOptionsResponse d req new_response [GET, HEAD]) = 200"
  by (simp add: sendOptionsResponse_def res_send_def send_end_def send_strip_def
      send_freshness_def send_length_etag_def send_type_def no_content_def Let_def
      new_response_def set_header_def remove_header_def req_fresh_def)

lemma options_body:
  "method req = OPTIONS \<Longrightarrow> body (sendOptionsResponse d req new_response [GET, HEAD]) = ''GET,HEAD''"
  by (simp add: sendOptionsResponse_def res_send_def send_end_def send_strip_def
      send_freshness_def send_length_etag_def send_type_def no_content_def Let_def
      new_response_def set_header_def remove_header_def req_fresh_def)

lemma options_type:
  "method req = OPTIONS \<Longrightarrow>
   resHeaders (sendOptionsResponse d req new_response [GET, HEAD]) ''Content-Type'' =
     Some ''text/html; charset=utf-8''"
  by (simp add: sendOptionsResponse_def res_send_def send_end_def send_strip_def
      send_freshness_def send_length_etag_def send_type_def no_content_def Let_def
      new_response_def set_header_def remove_header_def req_fresh_def)

lemma not_found_status: "statusCode (finalhandler d req res) = 404"
  by (simp add: finalhandler_def Let_def set_header_def remove_header_def)

lemma not_found_body:
  "body (finalhandler d req res) =
     (if method req = HEAD then []
      else createHtmlDocument (''Cannot '' @ method_name (method req) @ '' '' @ encodeUrl d (path req)))"
  by (simp add: finalhandler_def Let_def set_header_def remove_header_def)

lemma document_not_greeting: "createHtmlDocument m \<noteq> greeting"
  by (simp add: createHtmlDocument_def greeting_def)

lemma not_found_not_greeting: "body (finalhandler d req res) \<noteq> greeting"
  using document_not_greeting by (simp add: not_found_body) (simp add: greeting_def)


lemma unconditional_not_validated:
  "headers req ''if-none-match'' = None \<Longrightarrow> headers req ''if-modified-since'' = None \<Longrightarrow>
   \<not> validated d req"
  by (simp add: validated_def fresh_def field_def)

subsection \<open>Auxiliary facts: the process\<close>

lemma app_response_any_state: "snd (app_handle d req p) = snd (app_handle d req p')"
  by (simp add: app_handle_def app_def app_get_root_def root_regexp_def handles_method_def
      route_options_def root_handler_def)

lemma step_request: "step d p (Request req) = (p, Some (snd (app_handle d req p)))"
  by (simp add: split_beta app_state)

lemma step_keeps: "listen_args (fst (step d p ev)) = listen_args p \<and> stdout (fst (step d p ev)) = stdout p"
  by (cases ev) (simp_all add: split_beta app_state)

lemma step_response_any_state: "snd (step d p ev) = snd (step d p' ev)"
  by (cases ev) (simp_all add: split_beta app_response_any_state [of d _ p p'])

lemma run_keeps: "listen_args (fst (run d p evs)) = listen_args p \<and> stdout (fst (run d p evs)) = stdout p"
proof (induction evs arbitrary: p)
  case Nil
  show ?case by simp
next
  case (Cons ev evs)
  obtain p' out where s: "step d p ev = (p', out)" by (cases "step d p ev")
  obtain p'' rs where r: "run d p' evs = (p'', rs)" by (cases "run d p' evs")
  from step_keeps [of d p ev] s have "listen_args p' = listen_args p" "stdout p' = stdout p" by simp_all
  with Cons.IH [of p'] s r show ?case by simp
qed

lemma run_responses_any_state: "snd (run d p evs) = snd (run d p' evs)"
proof (induction evs arbitrary: p p')
  case Nil
  show ?case by simp
next
  case (Cons ev evs)
  obtain q out where s: "step d p ev = (q, out)" by (cases "step d p ev")
  obtain q' out' where s': "step d p' ev = (q', out')" by (cases "step d p' ev")
  from step_response_any_state [of d p ev p'] s s' have "out = out'" by simp
  with Cons.IH [of q q'] s s' show ?case by (simp add: split_beta split: option.splits)
qed

lemma main_started:
  "main can_bind e = Some p \<Longrightarrow>
   p = \<lparr>env = e, listen_args = (PORT e, HOST),
        stdout = [''Running on http://'' @ HOST @ '':'' @ to_string (PORT e)]\<rparr>"
  by (simp add: main_def split: if_splits)

lemma PORT_cases:
  "PORT e = (case e ''APP_PORT_NUMBER'' of None \<Rightarrow> Num 80
             | Some v \<Rightarrow> if v = [] then Num 80 else Str v)"
  by (simp add: PORT_def js_or_def env_get_def split: option.splits)


subsection \<open>The response to GET on the root path\<close>

text \<open>
  Claim C1, as the code has it. A GET request for the path \<^verbatim>\<open>/\<close> reaches the handler, and what
  the handler sends is the greeting. The status is 200 and the body is exactly the greeting
  unless the request is a conditional request that the entity tag of the greeting validates;
  then \<^verbatim>\<open>res.send\<close> answers 304 with an empty body. A request with neither \<^verbatim>\<open>If-None-Match\<close>
  nor \<^verbatim>\<open>If-Modified-Since\<close> is never validated, so it always gets 200 and the greeting.
\<close>

theorem root_get_response:
  assumes "method req = GET" and "path req = ''/''"
  shows "statusCode (snd (app_handle d req p)) = (if validated d req then 304 else 200) \<and>
         body (snd (app_handle d req p)) = (if validated d req then [] else greeting) \<and>
         (headers req ''if-none-match'' = None \<and> headers req ''if-modified-since'' = None
            \<longrightarrow> \<not> validated d req)"
proof -
  have m: "method req = GET \<or> method req = HEAD" using assms(1) by simp
  have "app_handle d req p = (p, res_send d req new_response greeting)"
    using assms(2) m by (rule app_root)
  then show ?thesis
    using send_greeting_status [OF m, of d] send_greeting_body [OF m, of d] assms(1)
      unconditional_not_validated [of req d]
    by simp
qed

text \<open>
  The request \<^verbatim>\<open>GET /\<close> without header fields.
\<close>

theorem root_get_response_witness:
  "statusCode (snd (app_handle sample_deps
      \<lparr>method = GET, path = ''/'', headers = Map.empty\<rparr> sample_process)) = 200 \<and>
   body (snd (app_handle sample_deps
      \<lparr>method = GET, path = ''/'', headers = Map.empty\<rparr> sample_process)) =
     ''Jay Shree Krishna! Welcome to the world of DevOps!...''"
  using root_get_response [of "\<lparr>method = GET, path = ''/'', headers = Map.empty\<rparr>"
      sample_deps sample_process]
  by (simp add: greeting_def)

text \<open>
  Claim C1 as stated (every GET request for \<^verbatim>\<open>/\<close> gets 200 and the greeting) fails for the
  request with the field \<^verbatim>\<open>If-None-Match: *\<close>: the status is 304 and the body is empty.
\<close>

theorem root_get_conditional_counterexample:
  "statusCode (snd (app_handle sample_deps
      \<lparr>method = GET, path = ''/'', headers = [''if-none-match'' \<mapsto> ''*'']\<rparr> sample_process)) = 304 \<and>
   body (snd (app_handle sample_deps
      \<lparr>method = GET, path = ''/'', headers = [''if-none-match'' \<mapsto> ''*'']\<rparr> sample_process)) = []"
proof -
  let ?req = "\<lparr>method = GET, path = ''/'', headers = [''if-none-match'' \<mapsto> ''*'']\<rparr>"
  have m: "method ?req = GET \<or> method ?req = HEAD" by simp
  have v: "validated sample_deps ?req"
    by (simp add: validated_def fresh_def field_def)
  have "app_handle sample_deps ?req sample_process =
      (sample_process, res_send sample_deps ?req new_response greeting)"
    by (rule app_root) simp_all
  then show ?thesis
    using send_greeting_status [OF m, of sample_deps] send_greeting_body [OF m, of sample_deps] v
    by simp
qed

subsection \<open>The listen port\<close>

text \<open>
  Claim C2. The port is computed from the environment when the module is loaded: without
  \<^verbatim>\<open>APP_PORT_NUMBER\<close>, or with the empty string as its value, it is the number 80; with any
  other value it is that string. This value is the port argument that a started process
  has called \<^verbatim>\<open>app.listen\<close> with.
\<close>

theorem listen_port:
  "PORT e = (case e ''APP_PORT_NUMBER'' of None \<Rightarrow> Num 80
             | Some v \<Rightarrow> if v = [] then Num 80 else Str v) \<and>
   (main can_bind e = Some p \<longrightarrow> fst (listen_args p) = PORT e)"
  using PORT_cases [of e] main_started [of can_bind e p] by auto

text \<open>
  The three cases at concrete environments, and a start with \<^verbatim>\<open>APP_PORT_NUMBER=8080\<close>.
\<close>

theorem listen_port_witness:
  "PORT Map.empty = Num 80 \<and> PORT [''APP_PORT_NUMBER'' \<mapsto> ''''] = Num 80 \<and>
   PORT [''APP_PORT_NUMBER'' \<mapsto> ''8080''] = Str ''8080'' \<and>
   main (\<lambda>port host. True) [''APP_PORT_NUMBER'' \<mapsto> ''8080''] =
     Some \<lparr>env = [''APP_PORT_NUMBER'' \<mapsto> ''8080''], listen_args = (Str ''8080'', ''0.0.0.0''),
            stdout = [''Running on http://0.0.0.0:8080'']\<rparr> \<and>
   fst (listen_args \<lparr>env = [''APP_PORT_NUMBER'' \<mapsto> ''8080''], listen_args = (Str ''8080'', ''0.0.0.0''),
            stdout = [''Running on http://0.0.0.0:8080'']\<rparr>) = Str ''8080''"
proof -
  have m: "main (\<lambda>port host. True) [''APP_PORT_NUMBER'' \<mapsto> ''8080''] =
     Some \<lparr>env = [''APP_PORT_NUMBER'' \<mapsto> ''8080''], listen_args = (Str ''8080'', ''0.0.0.0''),
            stdout = [''Running on http://0.0.0.0:8080'']\<rparr>"
    by (simp add: main_def PORT_def js_or_def env_get_def HOST_def)
  show ?thesis
    using listen_port [of Map.empty "\<lambda>port host. True" sample_process]
      listen_port [of "[''APP_PORT_NUMBER'' \<mapsto> '''']" "\<lambda>port host. True" sample_process]
      listen_port [of "[''APP_PORT_NUMBER'' \<mapsto> ''8080'']" "\<lambda>port host. True"] m
    by simp
qed

subsection \<open>Paths other than the root path\<close>

text \<open>
  Claim C3. A request for a path other than \<^verbatim>\<open>/\<close> (a GET request in particular) matches no
  route and is answered by the final handler: the status is 404, so it is not 200, and the
  body is not the greeting.
\<close>

theorem other_path_not_found:
  assumes "path req \<noteq> ''/''"
  shows "snd (app_handle d req p) = finalhandler d req new_response \<and>
         statusCode (snd (app_handle d req p)) = 404 \<and>
         statusCode (snd (app_handle d req p)) \<noteq> 200 \<and>
         body (snd (app_handle d req p)) \<noteq> greeting"
proof -
  have "app_handle d req p = (p, finalhandler d req new_response)"
    using assms by (simp add: app_not_found)
  then show ?thesis
    using not_found_status [of d req new_response] not_found_not_greeting [of d req new_response]
    by simp
qed

text \<open>
  The request \<^verbatim>\<open>GET /health\<close>.
\<close>

theorem other_path_not_found_witness:
  "statusCode (snd (app_handle sample_deps
      \<lparr>method = GET, path = ''/health'', headers = Map.empty\<rparr> sample_process)) = 404 \<and>
   body (snd (app_handle sample_deps
      \<lparr>method = GET, path = ''/health'', headers = Map.empty\<rparr> sample_process)) \<noteq>
     ''Jay Shree Krishna! Welcome to the world of DevOps!...''"
proof -
  have "path \<lparr>method = GET, path = ''/health'', headers = Map.empty\<rparr> \<noteq> ''/''"
    by simp
  from other_path_not_found [OF this, of sample_deps sample_process, THEN conjunct2]
  show ?thesis by (simp add: greeting_def)
qed

subsection \<open>The body sent for the root path is a constant\<close>

text \<open>
  Claim C4, as the code has it. The handler passes the same string to \<^verbatim>\<open>res.send\<close> for every
  request. Two requests for \<^verbatim>\<open>/\<close> with the same method get the same body, whatever their
  header fields are and whatever the state of the process is when they arrive, with one
  exception: of two GET requests, of which one is a validated conditional request and the
  other is not, the first gets an empty body and the second gets the greeting. So the bodies
  are equal exactly when the method is not GET or both or none of the two requests are
  validated.
\<close>

theorem root_body_deterministic:
  assumes "path req1 = ''/''" and "path req2 = ''/''"
    and "method req1 = method req2"
  shows "(body (snd (app_handle d req1 p1)) = body (snd (app_handle d req2 p2))) =
         (method req1 = GET \<longrightarrow> validated d req1 = validated d req2)"
proof -
  have g: "greeting \<noteq> []" by (simp add: greeting_def)
  consider (handler) "method req1 = GET \<or> method req1 = HEAD"
    | (options) "method req1 = OPTIONS"
    | (other) "method req1 \<notin> {GET, HEAD, OPTIONS}"
    by auto
  then show ?thesis
  proof cases
    case handler
    then have m2: "method req2 = GET \<or> method req2 = HEAD" using assms(3) by simp
    have "app_handle d req1 p1 = (p1, res_send d req1 new_response greeting)"
      "app_handle d req2 p2 = (p2, res_send d req2 new_response greeting)"
      using assms(1,2) handler m2 by (simp_all add: app_root)
    then show ?thesis
      using send_greeting_body [OF handler, of d] send_greeting_body [OF m2, of d] assms(3)
        handler g
      by auto
  next
    case options
    then have o2: "method req2 = OPTIONS" using assms(3) by simp
    show ?thesis
      using assms(1,2) options o2
      by (simp add: app_options options_body)
  next
    case other
    then have o2: "method req2 \<notin> {GET, HEAD, OPTIONS}" using assms(3) by simp
    have "app_handle d req1 p1 = (p1, finalhandler d req1 new_response)"
      "app_handle d req2 p2 = (p2, finalhandler d req2 new_response)"
      using other o2 by (simp_all add: app_not_found)
    then show ?thesis
      using assms(1,2,3) other by (simp add: not_found_body)
  qed
qed

text \<open>
  Two GET requests with different header fields, arriving in different states; and two
  OPTIONS requests, with and without \<^verbatim>\<open>If-None-Match: *\<close>.
\<close>

theorem root_body_deterministic_witness:
  "body (snd (app_handle sample_deps
      \<lparr>method = GET, path = ''/'', headers = [''user-agent'' \<mapsto> ''curl/8.5.0'']\<rparr> sample_process)) =
   body (snd (app_handle sample_deps
      \<lparr>method = GET, path = ''/'', headers = [''accept'' \<mapsto> ''*/*'', ''x-request-id'' \<mapsto> ''2'']\<rparr>
      (sample_process\<lparr>env := [''APP_PORT_NUMBER'' \<mapsto> ''8080'']\<rparr>))) \<and>
   body (snd (app_handle sample_deps
      \<lparr>method = OPTIONS, path = ''/'', headers = Map.empty\<rparr> sample_process)) =
   body (snd (app_handle sample_deps
      \<lparr>method = OPTIONS, path = ''/'', headers = [''if-none-match'' \<mapsto> ''*'']\<rparr> sample_process))"
proof -
  let ?a = "\<lparr>method = GET, path = ''/'', headers = [''user-agent'' \<mapsto> ''curl/8.5.0'']\<rparr>"
  let ?b = "\<lparr>method = GET, path = ''/'',
              headers = [''accept'' \<mapsto> ''*/*'', ''x-request-id'' \<mapsto> ''2'']\<rparr>"
  let ?c = "\<lparr>method = OPTIONS, path = ''/'', headers = Map.empty\<rparr>"
  let ?d = "\<lparr>method = OPTIONS, path = ''/'', headers = [''if-none-match'' \<mapsto> ''*'']\<rparr>"
  have v: "validated sample_deps ?a = validated sample_deps ?b"
    by (simp add: validated_def fresh_def field_def)
  have "body (snd (app_handle sample_deps ?a sample_process)) =
      body (snd (app_handle sample_deps ?b
        (sample_process\<lparr>env := [''APP_PORT_NUMBER'' \<mapsto> ''8080'']\<rparr>)))"
    using root_body_deterministic [of ?a ?b sample_deps sample_process
        "sample_process\<lparr>env := [''APP_PORT_NUMBER'' \<mapsto> ''8080'']\<rparr>"] v
    by simp
  moreover have "body (snd (app_handle sample_deps ?c sample_process)) =
      body (snd (app_handle sample_deps ?d sample_process))"
    using root_body_deterministic [of ?c ?d sample_deps sample_process sample_process]
    by simp
  ultimately show ?thesis by simp
qed

text \<open>
  Claim C4 as stated (requests that differ arbitrarily in their headers get identical
  bodies) fails: of two GET requests for \<^verbatim>\<open>/\<close>, the one with \<^verbatim>\<open>If-None-Match: *\<close> gets an
  empty body and the one without header fields gets the greeting.
\<close>

theorem root_body_headers_counterexample:
  "body (snd (app_handle sample_deps
      \<lparr>method = GET, path = ''/'', headers = Map.empty\<rparr> sample_process)) \<noteq>
   body (snd (app_handle sample_deps
      \<lparr>method = GET, path = ''/'', headers = [''if-none-match'' \<mapsto> ''*'']\<rparr> sample_process))"
proof -
  let ?a = "\<lparr>method = GET, path = ''/'', headers = Map.empty\<rparr>"
  let ?b = "\<lparr>method = GET, path = ''/'', headers = [''if-none-match'' \<mapsto> ''*'']\<rparr>"
  have ma: "method ?a = GET \<or> method ?a = HEAD" and mb: "method ?b = GET \<or> method ?b = HEAD"
    by simp_all
  have va: "\<not> validated sample_deps ?a" and vb: "validated sample_deps ?b"
    by (simp_all add: validated_def fresh_def field_def)
  have "app_handle sample_deps ?a sample_process =
      (sample_process, res_send sample_deps ?a new_response greeting)"
    "app_handle sample_deps ?b sample_process =
      (sample_process, res_send sample_deps ?b new_response greeting)"
    by (rule app_root, simp, simp)+
  then show ?thesis
    using send_greeting_body [OF ma, of sample_deps] send_greeting_body [OF mb, of sample_deps] va vb
    by (simp add: greeting_def)
qed

subsection \<open>No validation of the port\<close>

text \<open>
  Claim C5. A non-empty value of \<^verbatim>\<open>APP_PORT_NUMBER\<close> is the port as it is, a string: the
  module neither parses it nor checks a range. The only test between the value and the
  listener is the one that binding itself makes (\<open>can_bind\<close>), on the unchanged string, and
  the printed line repeats the string.
\<close>

theorem port_not_validated:
  assumes "e ''APP_PORT_NUMBER'' = Some v" and "v \<noteq> []"
  shows "PORT e = Str v \<and>
         main can_bind e =
           (if can_bind (Str v) ''0.0.0.0''
            then Some \<lparr>env = e, listen_args = (Str v, ''0.0.0.0''),
                       stdout = [''Running on http://0.0.0.0:'' @ v]\<rparr>
            else None)"
proof -
  have "PORT e = Str v" using assms by (simp add: PORT_cases)
  then show ?thesis by (simp add: main_def HOST_def)
qed

text \<open>
  The values \<^verbatim>\<open>abc\<close> and \<^verbatim>\<open>99999\<close>.
\<close>

theorem port_not_validated_witness:
  "PORT [''APP_PORT_NUMBER'' \<mapsto> ''abc''] = Str ''abc'' \<and>
   main (\<lambda>port host. True) [''APP_PORT_NUMBER'' \<mapsto> ''abc''] =
     Some \<lparr>env = [''APP_PORT_NUMBER'' \<mapsto> ''abc''], listen_args = (Str ''abc'', ''0.0.0.0''),
            stdout = [''Running on http://0.0.0.0:abc'']\<rparr> \<and>
   PORT [''APP_PORT_NUMBER'' \<mapsto> ''99999''] = Str ''99999''"
  using port_not_validated [of "[''APP_PORT_NUMBER'' \<mapsto> ''abc'']" "''abc''" "\<lambda>port host. True"]
    port_not_validated [of "[''APP_PORT_NUMBER'' \<mapsto> ''99999'']" "''99999''" "\<lambda>port host. True"]
  by simp

subsection \<open>The listen address does not change\<close>

text \<open>
  Claim C6. The address that a started process has called \<^verbatim>\<open>app.listen\<close> with is the pair
  of \<^verbatim>\<open>PORT\<close>, computed from the environment at the start, and \<^verbatim>\<open>HOST\<close>. After any sequence
  of requests and of changes to \<^verbatim>\<open>process.env\<close> it is the same, and the responses do not
  depend on what \<^verbatim>\<open>process.env\<close> holds after the start: nothing reads it again.
\<close>

theorem listen_address_immutable:
  assumes "main can_bind e = Some p"
  shows "listen_args p = (PORT e, HOST) \<and>
         listen_args (fst (run d p evs)) = (PORT e, HOST) \<and>
         snd (run d (p\<lparr>env := e'\<rparr>) evs) = snd (run d p evs)"
proof -
  have "listen_args p = (PORT e, HOST)" using main_started [OF assms] by simp
  moreover have "listen_args (fst (run d p evs)) = listen_args p" using run_keeps [of d p evs] by simp
  moreover have "snd (run d (p\<lparr>env := e'\<rparr>) evs) = snd (run d p evs)"
    by (rule run_responses_any_state)
  ultimately show ?thesis by simp
qed

text \<open>
  A start without \<^verbatim>\<open>APP_PORT_NUMBER\<close>, then the variable is set and a request arrives.
\<close>

theorem listen_address_immutable_witness:
  "main (\<lambda>port host. True) Map.empty = Some sample_process \<and>
   listen_args (fst (run sample_deps sample_process
     [SetEnv ''APP_PORT_NUMBER'' ''9090'',
      Request \<lparr>method = GET, path = ''/'', headers = Map.empty\<rparr>])) = (Num 80, ''0.0.0.0'')"
proof -
  have m: "main (\<lambda>port host. True) Map.empty = Some sample_process"
    by (simp add: main_def PORT_def js_or_def env_get_def HOST_def sample_process_def dec.simps)
  have "PORT Map.empty = Num 80" by (simp add: PORT_def js_or_def env_get_def)
  with listen_address_immutable [OF m, of sample_deps
      "[SetEnv ''APP_PORT_NUMBER'' ''9090'',
        Request \<lparr>method = GET, path = ''/'', headers = Map.empty\<rparr>]"] m
  show ?thesis
    by (simp add: HOST_def del: run.simps step.simps)
qed

subsection \<open>Handling a request has no side effect\<close>

text \<open>
  Claim C7. Handling a request leaves the state of the process as it was (its
  environment, its address, the lines printed), and the only output of the step is the
  response. The lines printed by a started process, after any events, are the one line of the
  start.
\<close>

theorem request_no_side_effect:
  "step d p (Request req) = (p, Some (snd (app_handle d req p))) \<and>
   fst (app_handle d req p) = p \<and>
   stdout (fst (run d p evs)) = stdout p \<and>
   (main can_bind e = Some p \<longrightarrow>
      stdout (fst (run d p evs)) = [''Running on http://'' @ HOST @ '':'' @ to_string (PORT e)])"
proof -
  have "stdout (fst (run d p evs)) = stdout p" using run_keeps [of d p evs] by simp
  moreover have "main can_bind e = Some p \<longrightarrow>
      stdout p = [''Running on http://'' @ HOST @ '':'' @ to_string (PORT e)]"
    using main_started [of can_bind e p] by auto
  ultimately show ?thesis by (simp add: step_request app_state del: step.simps)
qed

text \<open>
  A started process after two requests.
\<close>

theorem request_no_side_effect_witness:
  "main (\<lambda>port host. True) Map.empty = Some sample_process \<and>
   fst (app_handle sample_deps \<lparr>method = GET, path = ''/'', headers = Map.empty\<rparr> sample_process) =
     sample_process \<and>
   stdout (fst (run sample_deps sample_process
     [Request \<lparr>method = GET, path = ''/'', headers = Map.empty\<rparr>,
      Request \<lparr>method = POST, path = ''/'', headers = Map.empty\<rparr>])) =
     [''Running on http://0.0.0.0:80'']"
proof -
  have m: "main (\<lambda>port host. True) Map.empty = Some sample_process"
    by (simp add: main_def PORT_def js_or_def env_get_def HOST_def sample_process_def dec.simps)
  have s: "stdout sample_process = [''Running on http://0.0.0.0:80'']"
    by (simp add: sample_process_def)
  from request_no_side_effect [of sample_deps sample_process
      "\<lparr>method = GET, path = ''/'', headers = Map.empty\<rparr>"
      "[Request \<lparr>method = GET, path = ''/'', headers = Map.empty\<rparr>,
        Request \<lparr>method = POST, path = ''/'', headers = Map.empty\<rparr>]"
      "\<lambda>port host. True" Map.empty] m s
  show ?thesis by (simp del: run.simps step.simps)
qed

subsection \<open>The host\<close>

text \<open>
  Claim C8, as the code has it. \<^verbatim>\<open>HOST\<close> is the constant \<^verbatim>\<open>0.0.0.0\<close>, and it is the host argument
  of \<^verbatim>\<open>app.listen\<close> whatever the environment holds. It is the host that the server listens
  on when \<^verbatim>\<open>APP_PORT_NUMBER\<close> is unset, empty, or a string \<^verbatim>\<open>s\<close> with \<^verbatim>\<open>Number(s) >= 0\<close>. For
  every other value Node takes the port argument as the name of a pipe and listens there,
  without a host.
\<close>

theorem listener_host:
  "HOST = ''0.0.0.0'' \<and>
   (main can_bind e = Some p \<longrightarrow>
      snd (listen_args p) = ''0.0.0.0'' \<and> snd (listen_args (fst (run d p evs))) = ''0.0.0.0'') \<and>
   endpoint_host (net_listen (PORT e) HOST) =
     (case e ''APP_PORT_NUMBER'' of
        None \<Rightarrow> Some ''0.0.0.0''
      | Some v \<Rightarrow> if v = [] \<or> number_nonneg v then Some ''0.0.0.0'' else None)"
proof -
  have "main can_bind e = Some p \<longrightarrow>
      snd (listen_args p) = ''0.0.0.0'' \<and> snd (listen_args (fst (run d p evs))) = ''0.0.0.0''"
    using main_started [of can_bind e p] run_keeps [of d p evs] by (auto simp add: HOST_def)
  moreover have "endpoint_host (net_listen (PORT e) HOST) =
     (case e ''APP_PORT_NUMBER'' of
        None \<Rightarrow> Some ''0.0.0.0''
      | Some v \<Rightarrow> if v = [] \<or> number_nonneg v then Some ''0.0.0.0'' else None)"
    by (simp add: PORT_cases net_listen_def HOST_def split: option.splits)
  ultimately show ?thesis by (simp add: HOST_def)
qed

text \<open>
  An environment that sets \<^verbatim>\<open>HOST\<close> and \<^verbatim>\<open>APP_PORT_NUMBER=8080\<close>, and the empty environment.
\<close>

theorem listener_host_witness:
  "main (\<lambda>port host. True) [''HOST'' \<mapsto> ''127.0.0.1'', ''APP_PORT_NUMBER'' \<mapsto> ''8080''] =
     Some \<lparr>env = [''HOST'' \<mapsto> ''127.0.0.1'', ''APP_PORT_NUMBER'' \<mapsto> ''8080''],
            listen_args = (Str ''8080'', ''0.0.0.0''),
            stdout = [''Running on http://0.0.0.0:8080'']\<rparr> \<and>
   endpoint_host (net_listen
     (PORT [''HOST'' \<mapsto> ''127.0.0.1'', ''APP_PORT_NUMBER'' \<mapsto> ''8080'']) HOST) = Some ''0.0.0.0'' \<and>
   endpoint_host (net_listen (PORT Map.empty) HOST) = Some ''0.0.0.0''"
proof -
  have m: "main (\<lambda>port host. True) [''HOST'' \<mapsto> ''127.0.0.1'', ''APP_PORT_NUMBER'' \<mapsto> ''8080''] =
     Some \<lparr>env = [''HOST'' \<mapsto> ''127.0.0.1'', ''APP_PORT_NUMBER'' \<mapsto> ''8080''],
            listen_args = (Str ''8080'', ''0.0.0.0''),
            stdout = [''Running on http://0.0.0.0:8080'']\<rparr>"
    by (simp add: main_def PORT_def js_or_def env_get_def HOST_def)
  have n: "number_nonneg ''8080''" by code_simp
  from listener_host [of "\<lambda>port host. True"
      "[''HOST'' \<mapsto> ''127.0.0.1'', ''APP_PORT_NUMBER'' \<mapsto> ''8080'']" _ sample_deps "[]"]
    listener_host [of "\<lambda>port host. True" Map.empty sample_process sample_deps "[]"] m n
  show ?thesis by simp
qed

text \<open>
  Claim C8 as stated (the host of the listener is \<^verbatim>\<open>0.0.0.0\<close> for every value of the
  environment) fails for \<^verbatim>\<open>APP_PORT_NUMBER=abc\<close>: the server listens on the pipe \<^verbatim>\<open>abc\<close>, which
  has no host.
\<close>

theorem listener_pipe_counterexample:
  "net_listen (PORT [''APP_PORT_NUMBER'' \<mapsto> ''abc'']) HOST = Pipe ''abc'' \<and>
   endpoint_host (net_listen (PORT [''APP_PORT_NUMBER'' \<mapsto> ''abc'']) HOST) = None"
proof -
  have "\<not> number_nonneg ''abc''" by code_simp
  then show ?thesis
    by (simp add: net_listen_def PORT_def js_or_def env_get_def)
qed

subsection \<open>Other methods on the root path\<close>

text \<open>
  Claim C9, as the code has it. The route is registered for GET alone (and so serves HEAD).
  A request for \<^verbatim>\<open>/\<close> with another method never gets the greeting. With a method other than
  OPTIONS it is answered by the final handler, with the status 404. An OPTIONS request is
  answered by the router itself: the status is 200, and the field \<^verbatim>\<open>Allow\<close> and the body
  list the methods of the route, \<^verbatim>\<open>GET,HEAD\<close>.
\<close>

theorem root_other_methods:
  assumes "path req = ''/''" and "method req \<noteq> GET" and "method req \<noteq> HEAD"
  shows "body (snd (app_handle d req p)) \<noteq> greeting \<and>
         (if method req = OPTIONS
          then statusCode (snd (app_handle d req p)) = 200 \<and>
               body (snd (app_handle d req p)) = ''GET,HEAD'' \<and>
               resHeaders (snd (app_handle d req p)) ''Allow'' = Some ''GET,HEAD''
          else snd (app_handle d req p) = finalhandler d req new_response \<and>
               statusCode (snd (app_handle d req p)) = 404)"
proof (cases "method req = OPTIONS")
  case True
  have "resHeaders (sendOptionsResponse d req new_response [GET, HEAD]) ''Allow'' = Some ''GET,HEAD''"
    using True
    by (simp add: sendOptionsResponse_def res_send_def send_end_def send_strip_def
      send_freshness_def send_length_etag_def send_type_def no_content_def Let_def
      new_response_def set_header_def remove_header_def req_fresh_def)
  then show ?thesis
    using True assms(1) options_status [of req d] options_body [of req d]
    by (simp add: app_options greeting_def)
next
  case False
  then have "app_handle d req p = (p, finalhandler d req new_response)"
    using assms by (simp add: app_not_found)
  then show ?thesis
    using False not_found_status [of d req new_response]
      not_found_not_greeting [of d req new_response]
    by simp
qed

text \<open>
  The request \<^verbatim>\<open>POST /\<close>.
\<close>

theorem root_other_methods_witness:
  "statusCode (snd (app_handle sample_deps
      \<lparr>method = POST, path = ''/'', headers = Map.empty\<rparr> sample_process)) = 404 \<and>
   body (snd (app_handle sample_deps
      \<lparr>method = POST, path = ''/'', headers = Map.empty\<rparr> sample_process)) \<noteq>
     ''Jay Shree Krishna! Welcome to the world of DevOps!...''"
proof -
  let ?req = "\<lparr>method = POST, path = ''/'', headers = Map.empty\<rparr>"
  have "path ?req = ''/''" "method ?req \<noteq> GET" "method ?req \<noteq> HEAD" by simp_all
  from root_other_methods [OF this, of sample_deps sample_process]
  show ?thesis by (auto simp add: greeting_def)
qed

text \<open>
  Claim C9 as stated (every method other than GET and HEAD falls through to the not-found
  answer) fails for \<^verbatim>\<open>OPTIONS /\<close>: the status is 200, the body is \<^verbatim>\<open>GET,HEAD\<close>, and the
  response is not the one of the final handler.
\<close>

theorem root_options_counterexample:
  "statusCode (snd (app_handle sample_deps
      \<lparr>method = OPTIONS, path = ''/'', headers = Map.empty\<rparr> sample_process)) = 200 \<and>
   body (snd (app_handle sample_deps
      \<lparr>method = OPTIONS, path = ''/'', headers = Map.empty\<rparr> sample_process)) = ''GET,HEAD'' \<and>
   snd (app_handle sample_deps
      \<lparr>method = OPTIONS, path = ''/'', headers = Map.empty\<rparr> sample_process) \<noteq>
     finalhandler sample_deps \<lparr>method = OPTIONS, path = ''/'', headers = Map.empty\<rparr> new_response"
proof -
  let ?req = "\<lparr>method = OPTIONS, path = ''/'', headers = Map.empty\<rparr>"
  have a: "app_handle sample_deps ?req sample_process =
      (sample_process, sendOptionsResponse sample_deps ?req new_response [GET, HEAD])"
    by (rule app_options) simp_all
  have s: "statusCode (sendOptionsResponse sample_deps ?req new_response [GET, HEAD]) = 200"
    by (rule options_status) simp
  have b: "body (sendOptionsResponse sample_deps ?req new_response [GET, HEAD]) = ''GET,HEAD''"
    by (rule options_body) simp
  have "statusCode (finalhandler sample_deps ?req new_response) = 404"
    by (rule not_found_status)
  with s have "sendOptionsResponse sample_deps ?req new_response [GET, HEAD] \<noteq>
      finalhandler sample_deps ?req new_response"
    by auto
  with a s b show ?thesis by simp
qed

subsection \<open>The content type of a successful response\<close>

text \<open>
  Claim C10. Every response with the status 200 to a request for \<^verbatim>\<open>/\<close> has the content
  type that \<^verbatim>\<open>res.send\<close> gives a string, \<^verbatim>\<open>text/html; charset=utf-8\<close>, and not
  \<^verbatim>\<open>text/plain\<close>.
\<close>

theorem root_ok_content_type:
  assumes "path req = ''/''" and "statusCode (snd (app_handle d req p)) = 200"
  shows "resHeaders (snd (app_handle d req p)) ''Content-Type'' = Some ''text/html; charset=utf-8'' \<and>
         resHeaders (snd (app_handle d req p)) ''Content-Type'' \<noteq> Some ''text/plain''"
proof -
  consider (handler) "method req = GET \<or> method req = HEAD"
    | (options) "method req = OPTIONS"
    | (other) "method req \<notin> {GET, HEAD, OPTIONS}"
    by auto
  then have "resHeaders (snd (app_handle d req p)) ''Content-Type'' = Some ''text/html; charset=utf-8''"
  proof cases
    case handler
    have a: "app_handle d req p = (p, res_send d req new_response greeting)"
      using assms(1) handler by (rule app_root)
    with assms(2) send_greeting_status [OF handler, of d] have "\<not> validated d req"
      by (simp split: if_splits)
    with a send_greeting_type [OF handler, of d] show ?thesis by simp
  next
    case options
    with assms(1) show ?thesis by (simp add: app_options options_type)
  next
    case other
    then have "app_handle d req p = (p, finalhandler d req new_response)"
      by (simp add: app_not_found)
    with assms(2) not_found_status [of d req new_response] show ?thesis by simp
  qed
  then show ?thesis by simp
qed

text \<open>
  The request \<^verbatim>\<open>GET /\<close> without header fields.
\<close>

theorem root_ok_content_type_witness:
  "statusCode (snd (app_handle sample_deps
      \<lparr>method = GET, path = ''/'', headers = Map.empty\<rparr> sample_process)) = 200 \<and>
   resHeaders (snd (app_handle sample_deps
      \<lparr>method = GET, path = ''/'', headers = Map.empty\<rparr> sample_process)) ''Content-Type'' =
     Some ''text/html; charset=utf-8''"
proof -
  let ?req = "\<lparr>method = GET, path = ''/'', headers = Map.empty\<rparr>"
  have m: "method ?req = GET \<or> method ?req = HEAD" by simp
  have "\<not> validated sample_deps ?req"
    by (simp add: validated_def fresh_def field_def)
  with send_greeting_status [OF m, of sample_deps]
  have s: "statusCode (snd (app_handle sample_deps ?req sample_process)) = 200"
    by (simp add: app_root)
  have "path ?req = ''/''" by simp
  from root_ok_content_type [OF this s] s show ?thesis by simp
qed

end
